theory Spec2Isabelle
  imports Main "HOL-Library.Word"
begin

section \<open>Shared index data (index/shared\_data.c)\<close>

text \<open>
  C pointers to objects that the functions only compare or pass on are addresses
  (\<open>nat\<close>), with \<open>None\<close> for \<open>NULL\<close>. The fields of the objects that the code reads through
  a pointer (\<open>m->account\<close>, \<open>e->sequence\<close>, \<open>NeoMutt->sub\<close>) and the helper
  \<open>mview_mailbox()\<close>, which lives in another file, are given by an explicit heap.
\<close>

type_synonym addr = nat

record IndexSharedData =
  sub :: "addr option"
  account :: "addr option"
  mailbox_view :: "addr option"
  mailbox :: "addr option"
  email :: "addr option"
  email_seq :: nat
  notify :: "addr option"

record index_heap =
  mview_mailbox :: "addr option \<Rightarrow> addr option"
  mailbox_account :: "addr \<Rightarrow> addr option"
  email_sequence :: "addr \<Rightarrow> nat"
  NeoMutt_sub :: "addr option"

text \<open>
  \<open>NotifyIndex\<close> is a bit mask of distinct flags; a value of that type is the set of the
  flags that are on, \<open>NT_INDEX_NO_FLAGS\<close> is the empty set and \<open>|=\<close> is union.
\<close>

datatype NotifyIndex_flag =
  NT_INDEX_ADD | NT_INDEX_DELETE | NT_INDEX_SUBSET | NT_INDEX_ACCOUNT
  | NT_INDEX_MVIEW | NT_INDEX_MAILBOX | NT_INDEX_EMAIL

definition NT_INDEX_NO_FLAGS :: "NotifyIndex_flag set" where
  "NT_INDEX_NO_FLAGS = {}"

text \<open>
  One \<open>notify_send(shared->notify, NT_INDEX, subtype, shared)\<close>: the notifier it is sent
  to and the subtype. The functions return the notifications they send, in order.
\<close>

type_synonym notification = "addr option \<times> NotifyIndex_flag set"

definition index_shared_data_set_mview ::
  "index_heap \<Rightarrow> IndexSharedData option \<Rightarrow> addr option
     \<Rightarrow> IndexSharedData option \<times> notification list" where
  "index_shared_data_set_mview hp shared mv =
     (case shared of
        None \<Rightarrow> (None, [])
      | Some s0 \<Rightarrow>
          let subtype0 = NT_INDEX_NO_FLAGS;
              (s1, subtype1) =
                (if mailbox_view s0 \<noteq> mv
                 then (s0\<lparr>mailbox_view := mv\<rparr>, subtype0 \<union> {NT_INDEX_MVIEW})
                 else (s0, subtype0));
              m = mview_mailbox hp mv;
              (s2, subtype2) =
                (if mailbox s1 \<noteq> m
                 then (s1\<lparr>mailbox := m, email := None, email_seq := 0\<rparr>,
                       subtype1 \<union> {NT_INDEX_MAILBOX, NT_INDEX_EMAIL})
                 else (s1, subtype1));
              a = (case m of None \<Rightarrow> None | Some mp \<Rightarrow> mailbox_account hp mp);
              (s3, subtype3) =
                (if account s2 \<noteq> a
                 then (s2\<lparr>account := a\<rparr>, subtype2 \<union> {NT_INDEX_ACCOUNT})
                 else (s2, subtype2));
              sb = NeoMutt_sub hp;
              (s4, subtype4) =
                (if sub s3 \<noteq> sb
                 then (s3\<lparr>sub := sb\<rparr>, subtype3 \<union> {NT_INDEX_SUBSET})
                 else (s3, subtype3))
          in (Some s4,
              if subtype4 \<noteq> NT_INDEX_NO_FLAGS then [(notify s4, subtype4)] else []))"

text \<open>\<open>e\<close> may be \<open>NULL\<close>: then the sequence is 0.\<close>

definition index_shared_data_set_email ::
  "index_heap \<Rightarrow> IndexSharedData option \<Rightarrow> addr option
     \<Rightarrow> IndexSharedData option \<times> notification list" where
  "index_shared_data_set_email hp shared e =
     (case shared of
        None \<Rightarrow> (None, [])
      | Some s \<Rightarrow>
          let seq = (case e of None \<Rightarrow> 0 | Some ep \<Rightarrow> email_sequence hp ep)
          in if email s \<noteq> e \<or> email_seq s \<noteq> seq
             then (Some (s\<lparr>email := e, email_seq := seq\<rparr>), [(notify s, {NT_INDEX_EMAIL})])
             else (Some s, []))"

text \<open>
  \<open>e\<close> is dereferenced without a check, so it is an address here: the function has no
  defined result for \<open>NULL\<close>.
\<close>

definition index_shared_data_is_cur_email ::
  "index_heap \<Rightarrow> IndexSharedData option \<Rightarrow> addr \<Rightarrow> bool" where
  "index_shared_data_is_cur_email hp shared e =
     (case shared of
        None \<Rightarrow> False
      | Some s \<Rightarrow> email_seq s = email_sequence hp e)"

section \<open>The maildir field delimiter (maildir/config.c)\<close>

text \<open>
  A C string is a \<open>string\<close> read up to its first NUL, or up to its end: \<open>cstr\<close> is its
  content, \<open>strlen\<close> the length of the content and \<open>deref\<close> the byte that \<open>*s\<close> reads,
  which is the terminator when the content is empty.
\<close>

definition NUL :: char where
  "NUL = CHR 0x00"

definition cstr :: "string \<Rightarrow> string" where
  "cstr s = takeWhile (\<lambda>c. c \<noteq> NUL) s"

definition strlen :: "string \<Rightarrow> nat" where
  "strlen s = length (cstr s)"

definition deref :: "string \<Rightarrow> char" where
  "deref s = (case s of [] \<Rightarrow> NUL | c # _ \<Rightarrow> c)"

text \<open>\<open>isalnum()\<close> in the "C" locale: the ASCII digits and letters.\<close>

definition isalnum :: "char \<Rightarrow> bool" where
  "isalnum c =
     (let n = (of_char c :: nat)
      in (48 \<le> n \<and> n \<le> 57) \<or> (65 \<le> n \<and> n \<le> 90) \<or> (97 \<le> n \<and> n \<le> 122))"

text \<open>
  \<open>strchr(s, c) != NULL\<close>: \<open>c\<close> occurs in the content of \<open>s\<close>, or \<open>c\<close> is NUL, which
  matches the terminator.
\<close>

definition strchr :: "string \<Rightarrow> char \<Rightarrow> bool" where
  "strchr s c = (c \<in> set (cstr s) \<or> c = NUL)"

text \<open>The string \<open>"-.\\/"\<close> of the source: minus, dot, backslash, slash.\<close>

definition forbidden_delimiters :: string where
  "forbidden_delimiters = [CHR ''-'', CHR ''.'', CHR 0x5C, CHR ''/'']"

datatype csr = CSR_SUCCESS | CSR_ERR_INVALID

text \<open>Of \<open>struct ConfigDef\<close>, the name and the initial value (a string for this variable).\<close>

record ConfigDef =
  cd_name :: string
  initial :: string

text \<open>
  The static flag \<open>maildir_field_delimiter_changed\<close> is explicit state: the validator
  takes its value and returns the new one, after the result code, and then the contents
  of the error buffer \<open>err\<close>, which \<open>buf_printf\<close> overwrites.
\<close>

definition maildir_field_delimiter_validator ::
  "bool \<Rightarrow> ConfigDef \<Rightarrow> string \<Rightarrow> string \<Rightarrow> csr \<times> bool \<times> string" where
  "maildir_field_delimiter_validator changed cdef value err =
     (let delim = value in
      if strlen delim \<noteq> 1
      then (CSR_ERR_INVALID, changed,
            ''maildir_field_delimiter must be exactly one character long'')
      else if isalnum (deref delim) \<or> strchr forbidden_delimiters (deref delim)
      then (CSR_ERR_INVALID, changed,
            ''maildir_field_delimiter cannot be alphanumeric or '' @ [CHR 0x27]
              @ forbidden_delimiters @ [CHR 0x27])
      else if changed
      then (CSR_ERR_INVALID, changed, ''maildir_field_delimiter can only be set once'')
      else if deref delim \<noteq> deref (initial cdef)
      then (CSR_SUCCESS, True, err)
      else (CSR_SUCCESS, changed, err))"

text \<open>The entry of \<open>MaildirVars\<close> that the validator is registered for.\<close>

definition MaildirVars_field_delimiter :: ConfigDef where
  "MaildirVars_field_delimiter =
     \<lparr>cd_name = ''maildir_field_delimiter'', initial = '':''\<rparr>"

text \<open>
  A sequence of validations, each with its own definition and value: the result codes,
  in order, and the flag after the last one.
\<close>

fun validations :: "bool \<Rightarrow> (ConfigDef \<times> string) list \<Rightarrow> csr list \<times> bool" where
  "validations changed [] = ([], changed)"
| "validations changed ((cdef, value) # rest) =
     (case maildir_field_delimiter_validator changed cdef value [] of
        (rc, changed', err') \<Rightarrow>
          (case validations changed' rest of (rcs, final) \<Rightarrow> (rc # rcs, final)))"

section \<open>The GDBM backend of the key/value store (store/gdbm.c)\<close>

subsection \<open>The engine\<close>

type_synonym byte = "8 word"

text \<open>The C type \<open>datum\<close>: a pointer to bytes, \<open>None\<close> for \<open>NULL\<close>, and an \<open>int\<close> size.\<close>

record datum =
  dptr :: "byte list option"
  dsize :: int

datatype gdbm_open_flag = GDBM_READER | GDBM_WRCREAT

datatype gdbm_store_flag = GDBM_INSERT | GDBM_REPLACE

text \<open>What stands behind an open \<open>GDBM_FILE\<close>: the file and the mode it was opened in.\<close>

record gdbm_file_info =
  db_name :: string
  read_write :: gdbm_open_flag

text \<open>Every call into the library is logged, with its arguments.\<close>

datatype gdbm_call =
  Call_gdbm_open string nat gdbm_open_flag nat
  | Call_gdbm_fetch nat datum
  | Call_gdbm_store nat datum datum gdbm_store_flag
  | Call_gdbm_delete nat datum
  | Call_gdbm_close nat

text \<open>
  Modelled from the spec: the GDBM library (\<open>gdbm_open\<close>, \<open>gdbm_fetch\<close>, \<open>gdbm_store\<close>,
  \<open>gdbm_delete\<close>, \<open>gdbm_close\<close>) is an external collaborator and not under src/. The spec
  treats it as a black box that persists bytes given a path: a record stored for a key
  replaces the one there, a handle opened read-only can fetch and cannot store, a fetch
  that finds no record gives the null result with length 0, a delete of an absent key
  fails, and a store or delete can fail with an internal error of the engine. The world
  of the engine is the database kept at each path (\<open>files\<close>), whether an open of a path in
  a mode succeeds (\<open>openable\<close>: permissions, locks, corruption), whether the engine reports
  an internal error on a store or delete made as its call number \<open>n\<close>, counted from 0
  (\<open>backend_failure\<close>: a full disk, an I/O error), the table of the handles given out so far
  (\<open>handles\<close>; a \<open>GDBM_FILE\<close> is an index into it, and a closed handle's entry is \<open>None\<close>),
  and the log of the calls (\<open>calls\<close>).
\<close>

record gdbm_world =
  files :: "string \<Rightarrow> (byte list \<rightharpoonup> byte list)"
  openable :: "string \<Rightarrow> gdbm_open_flag \<Rightarrow> bool"
  backend_failure :: "nat \<Rightarrow> bool"
  handles :: "gdbm_file_info option list"
  calls :: "gdbm_call list"

definition handle_info :: "gdbm_world \<Rightarrow> nat \<Rightarrow> gdbm_file_info option" where
  "handle_info w h = (if h < length (handles w) then handles w ! h else None)"

definition logged :: "gdbm_world \<Rightarrow> gdbm_call \<Rightarrow> gdbm_world" where
  "logged w c = w\<lparr>calls := calls w @ [c]\<rparr>"

text \<open>The bytes a \<open>datum\<close> denotes: the first \<open>dsize\<close> bytes at \<open>dptr\<close>.\<close>

definition datum_bytes :: "datum \<Rightarrow> byte list option" where
  "datum_bytes d = (case dptr d of None \<Rightarrow> None | Some b \<Rightarrow> Some (take (nat (dsize d)) b))"

definition datum_null :: datum where
  "datum_null = \<lparr>dptr = None, dsize = 0\<rparr>"

text \<open>
  Modelled from the spec: \<open>gdbm_open\<close> (external) succeeds when the world lets the path be
  opened in the mode asked for, and then gives out the next handle; it fails with \<open>NULL\<close>
  otherwise.
\<close>

definition gdbm_open ::
  "gdbm_world \<Rightarrow> string \<Rightarrow> nat \<Rightarrow> gdbm_open_flag \<Rightarrow> nat \<Rightarrow> gdbm_world \<times> nat option" where
  "gdbm_open w path block_size flags mode =
     (let w1 = logged w (Call_gdbm_open path block_size flags mode) in
      if openable w path flags
      then (w1\<lparr>handles := handles w @ [Some \<lparr>db_name = path, read_write = flags\<rparr>]\<rparr>,
            Some (length (handles w)))
      else (w1, None))"

text \<open>
  Modelled from the spec: \<open>gdbm_fetch\<close> (external) returns the record stored under the key,
  or the null \<open>datum\<close> with size 0 when there is none; it changes no database.
\<close>

definition gdbm_fetch :: "gdbm_world \<Rightarrow> nat \<Rightarrow> datum \<Rightarrow> gdbm_world \<times> datum" where
  "gdbm_fetch w dbf key =
     (let w1 = logged w (Call_gdbm_fetch dbf key) in
      case handle_info w dbf of
        None \<Rightarrow> (w1, datum_null)
      | Some info \<Rightarrow>
          (case datum_bytes key of
             None \<Rightarrow> (w1, datum_null)
           | Some k \<Rightarrow>
               (case files w (db_name info) k of
                  None \<Rightarrow> (w1, datum_null)
                | Some v \<Rightarrow> (w1, \<lparr>dptr = Some v, dsize = int (length v)\<rparr>))))"

text \<open>
  Modelled from the spec: \<open>gdbm_store\<close> (external) fails with -1 on a handle opened
  read-only, for a key or a content whose pointer is \<open>NULL\<close>, and on an internal error of
  the engine, and then changes no record; with \<open>GDBM_REPLACE\<close> it puts the record in place
  of the one under the key and returns 0; with \<open>GDBM_INSERT\<close> it returns 1 and keeps a
  record that is there.
\<close>

definition gdbm_store ::
  "gdbm_world \<Rightarrow> nat \<Rightarrow> datum \<Rightarrow> datum \<Rightarrow> gdbm_store_flag \<Rightarrow> gdbm_world \<times> int" where
  "gdbm_store w dbf key content flag =
     (let w1 = logged w (Call_gdbm_store dbf key content flag) in
      case handle_info w dbf of
        None \<Rightarrow> (w1, -1)
      | Some info \<Rightarrow>
          if read_write info = GDBM_READER then (w1, -1)
          else
            (case (datum_bytes key, datum_bytes content) of
               (Some k, Some v) \<Rightarrow>
                 if backend_failure w (length (calls w)) then (w1, -1)
                 else if flag = GDBM_INSERT \<and> files w (db_name info) k \<noteq> None then (w1, 1)
                 else (w1\<lparr>files := (files w)(db_name info := (files w (db_name info))(k \<mapsto> v))\<rparr>, 0)
             | _ \<Rightarrow> (w1, -1)))"

text \<open>
  Modelled from the spec: \<open>gdbm_delete\<close> (external) removes the record under the key and
  returns 0; it fails with -1 when the key is absent, when the handle is read-only and on
  an internal error of the engine.
\<close>

definition gdbm_delete :: "gdbm_world \<Rightarrow> nat \<Rightarrow> datum \<Rightarrow> gdbm_world \<times> int" where
  "gdbm_delete w dbf key =
     (let w1 = logged w (Call_gdbm_delete dbf key) in
      case handle_info w dbf of
        None \<Rightarrow> (w1, -1)
      | Some info \<Rightarrow>
          if read_write info = GDBM_READER then (w1, -1)
          else
            (case datum_bytes key of
               None \<Rightarrow> (w1, -1)
             | Some k \<Rightarrow>
                 if files w (db_name info) k = None then (w1, -1)
                 else if backend_failure w (length (calls w)) then (w1, -1)
                 else (w1\<lparr>files := (files w)(db_name info := (files w (db_name info))(k := None))\<rparr>, 0)))"

text \<open>
  Modelled from the spec: \<open>gdbm_close\<close> (external) releases the handle; the databases stay
  as they are.
\<close>

definition gdbm_close :: "gdbm_world \<Rightarrow> nat \<Rightarrow> gdbm_world" where
  "gdbm_close w dbf =
     (let w1 = logged w (Call_gdbm_close dbf) in w1\<lparr>handles := (handles w)[dbf := None]\<rparr>)"

subsection \<open>The adapter\<close>

definition INT_MAX :: nat where
  "INT_MAX = 2147483647"

text \<open>
  The assignments \<open>dkey.dsize = klen\<close> and \<open>*vlen = data.dsize\<close> convert between \<open>size_t\<close>
  (a \<open>nat\<close> here; 64 bits wide in the conversion back) and the 32-bit \<open>int\<close>.
\<close>

definition int_of_size_t :: "nat \<Rightarrow> int" where
  "int_of_size_t n = sint (word_of_nat n :: 32 word)"

definition size_t_of_int :: "int \<Rightarrow> nat" where
  "size_t_of_int i = nat (i mod 2 ^ 64)"

text \<open>\<open>path\<close> may be \<open>NULL\<close>. The page size is 4096 and the mode is octal 600.\<close>

definition store_gdbm_open :: "gdbm_world \<Rightarrow> string option \<Rightarrow> gdbm_world \<times> nat option" where
  "store_gdbm_open w path =
     (case path of
        None \<Rightarrow> (w, None)
      | Some p \<Rightarrow>
          let pagesize = 4096;
              (w1, db) = gdbm_open w p pagesize GDBM_WRCREAT 384
          in if db = None
             then gdbm_open w1 p pagesize GDBM_READER 384
             else (w1, db))"

text \<open>
  \<open>key\<close> and \<open>value\<close> are the caller's buffers, \<open>klen\<close> and \<open>vlen\<close> the lengths passed with
  them. \<open>store_gdbm_fetch\<close> also takes what the caller's \<open>*vlen\<close> holds before the call,
  and returns the pointer and what \<open>*vlen\<close> holds after it. \<open>store_gdbm_store\<close> hands its
  two pointers to the engine unchecked, and the engine has a result for \<open>NULL\<close>: there
  \<open>key\<close> and \<open>value\<close> are pointers, \<open>None\<close> for \<open>NULL\<close>.
\<close>

definition store_gdbm_fetch ::
  "gdbm_world \<Rightarrow> nat option \<Rightarrow> byte list \<Rightarrow> nat \<Rightarrow> nat
     \<Rightarrow> gdbm_world \<times> byte list option \<times> nat" where
  "store_gdbm_fetch w store key klen vlen =
     (case store of
        None \<Rightarrow> (w, None, vlen)
      | Some db \<Rightarrow>
          if klen > INT_MAX then (w, None, vlen)
          else
            let dkey = \<lparr>dptr = Some key, dsize = int_of_size_t klen\<rparr>;
                (w1, data) = gdbm_fetch w db dkey
            in (w1, dptr data, size_t_of_int (dsize data)))"

definition store_gdbm_store ::
  "gdbm_world \<Rightarrow> nat option \<Rightarrow> byte list option \<Rightarrow> nat \<Rightarrow> byte list option \<Rightarrow> nat
     \<Rightarrow> gdbm_world \<times> int" where
  "store_gdbm_store w store key klen value vlen =
     (case store of
        None \<Rightarrow> (w, -1)
      | Some db \<Rightarrow>
          if klen > INT_MAX \<or> vlen > INT_MAX then (w, -1)
          else
            let dkey = \<lparr>dptr = key, dsize = int_of_size_t klen\<rparr>;
                databuf = \<lparr>dptr = value, dsize = int_of_size_t vlen\<rparr>
            in gdbm_store w db dkey databuf GDBM_REPLACE)"

definition store_gdbm_delete_record ::
  "gdbm_world \<Rightarrow> nat option \<Rightarrow> byte list \<Rightarrow> nat \<Rightarrow> gdbm_world \<times> int" where
  "store_gdbm_delete_record w store key klen =
     (case store of
        None \<Rightarrow> (w, -1)
      | Some db \<Rightarrow>
          if klen > INT_MAX then (w, -1)
          else
            let dkey = \<lparr>dptr = Some key, dsize = int_of_size_t klen\<rparr>
            in gdbm_delete w db dkey)"

text \<open>
  \<open>ptr\<close> is a pointer to the caller's handle variable: \<open>None\<close> when \<open>ptr\<close> is \<open>NULL\<close>,
  \<open>Some None\<close> when the variable holds \<open>NULL\<close>. The function returns the variable after
  the call.
\<close>

definition store_gdbm_close ::
  "gdbm_world \<Rightarrow> nat option option \<Rightarrow> gdbm_world \<times> nat option option" where
  "store_gdbm_close w ptr =
     (case ptr of
        None \<Rightarrow> (w, None)
      | Some None \<Rightarrow> (w, Some None)
      | Some (Some db) \<Rightarrow> (gdbm_close w db, Some None))"

subsection \<open>Example worlds\<close>

text \<open>
  Worlds with no handle open yet: one where every open succeeds and the databases are
  empty, one where only a read-only open succeeds and the database holds the record
  \<open>[1] \<mapsto> [7]\<close>, one where no open succeeds, and one like the first where the engine
  reports an internal error on every store and delete.
\<close>

definition world_writable :: gdbm_world where
  "world_writable =
     \<lparr>files = (\<lambda>p. Map.empty), openable = (\<lambda>p f. True),
      backend_failure = (\<lambda>n. False), handles = [], calls = []\<rparr>"

definition world_failing :: gdbm_world where
  "world_failing =
     \<lparr>files = (\<lambda>p. Map.empty), openable = (\<lambda>p f. True),
      backend_failure = (\<lambda>n. True), handles = [], calls = []\<rparr>"

definition world_read_only :: gdbm_world where
  "world_read_only =
     \<lparr>files = (\<lambda>p. [[1] \<mapsto> [7]]), openable = (\<lambda>p f. f = GDBM_READER),
      backend_failure = (\<lambda>n. False), handles = [], calls = []\<rparr>"

definition world_unavailable :: gdbm_world where
  "world_unavailable =
     \<lparr>files = (\<lambda>p. Map.empty), openable = (\<lambda>p f. False),
      backend_failure = (\<lambda>n. False), handles = [], calls = []\<rparr>"

section \<open>Properties of the shared index data\<close>

lemma set_mview_fields:
  "index_shared_data_set_mview hp (Some s) mv = (r, ns) \<Longrightarrow>
   \<exists>s'. r = Some s' \<and> mailbox s' = mview_mailbox hp mv
     \<and> (mview_mailbox hp mv \<noteq> mailbox s \<longrightarrow> email s' = None \<and> email_seq s' = 0)
     \<and> (mview_mailbox hp mv = mailbox s \<longrightarrow> email s' = email s \<and> email_seq s' = email_seq s)"
  by (auto simp: index_shared_data_set_mview_def Let_def split: if_splits)

text \<open>
  C8. In \<open>index_shared_data_set_mview\<close>, whenever the mailbox derived from the new
  mailbox view differs from the shared mailbox, the call sets the shared mailbox to the
  derived one and resets the shared email to \<open>NULL\<close> and the shared email sequence to 0.
  So after every call the shared mailbox is the one of the view, and a shared email that
  is still set after the call is the one that was set before, for the same mailbox.
\<close>

theorem set_mview_resets_email:
  "index_shared_data_set_mview hp (Some s) mv = (r, ns) \<Longrightarrow>
   (\<exists>s'. r = Some s' \<and> mailbox s' = mview_mailbox hp mv
      \<and> (mview_mailbox hp mv \<noteq> mailbox s \<longrightarrow> email s' = None \<and> email_seq s' = 0)
      \<and> (email s' \<noteq> None \<longrightarrow> mailbox s' = mailbox s \<and> email s' = email s))"
  using set_mview_fields [of hp s mv r ns] by auto

theorem set_mview_resets_email_witness:
  "\<exists>r ns.
     index_shared_data_set_mview
       \<lparr>mview_mailbox = (\<lambda>mv. case mv of None \<Rightarrow> None | Some v \<Rightarrow> Some (v + 100)),
        mailbox_account = (\<lambda>m. Some 7), email_sequence = (\<lambda>e. 42), NeoMutt_sub = Some 1\<rparr>
       (Some \<lparr>sub = Some 1, account = Some 7, mailbox_view = Some 2, mailbox = Some 102,
              email = Some 9, email_seq = 42, notify = Some 5\<rparr>)
       (Some 3) = (r, ns)
     \<and> (\<exists>s'. r = Some s' \<and> mailbox s' = Some 103 \<and> email s' = None \<and> email_seq s' = 0)"
proof -
  let ?hp = "\<lparr>mview_mailbox = (\<lambda>mv. case mv of None \<Rightarrow> None | Some v \<Rightarrow> Some (v + 100)),
        mailbox_account = (\<lambda>m. Some 7), email_sequence = (\<lambda>e. 42), NeoMutt_sub = Some 1\<rparr>"
  let ?s = "\<lparr>sub = Some 1, account = Some 7, mailbox_view = Some 2, mailbox = Some 102,
              email = Some 9, email_seq = 42, notify = Some (5::nat)\<rparr>"
  obtain r ns where call: "index_shared_data_set_mview ?hp (Some ?s) (Some 3) = (r, ns)"
    by (cases "index_shared_data_set_mview ?hp (Some ?s) (Some 3)")
  from set_mview_resets_email [OF call] call show ?thesis
    by auto
qed

text \<open>
  C9. \<open>index_shared_data_is_cur_email\<close> decides by the sequence number alone: for shared
  data that is not \<open>NULL\<close> and an email \<open>e\<close> it is true exactly when the sequence of \<open>e\<close>
  equals the shared email sequence, and this can be so for an \<open>e\<close> that is not the shared
  email; for \<open>NULL\<close> shared data it is false.
\<close>

theorem is_cur_email_by_sequence:
  "index_shared_data_is_cur_email hp None e = False
   \<and> index_shared_data_is_cur_email hp (Some s) e = (email_sequence hp e = email_seq s)
   \<and> (\<exists>hp' s' e'. email s' \<noteq> Some e' \<and> index_shared_data_is_cur_email hp' (Some s') e')"
proof -
  let ?hp = "\<lparr>mview_mailbox = (\<lambda>mv. None), mailbox_account = (\<lambda>m. None),
               email_sequence = (\<lambda>e. 5), NeoMutt_sub = None\<rparr>"
  let ?s = "\<lparr>sub = None, account = None, mailbox_view = None, mailbox = None,
             email = Some 1, email_seq = 5, notify = None\<rparr>"
  have "email ?s \<noteq> Some 2 \<and> index_shared_data_is_cur_email ?hp (Some ?s) 2"
    by (simp add: index_shared_data_is_cur_email_def)
  then have "\<exists>hp' s' e'. email s' \<noteq> Some e' \<and> index_shared_data_is_cur_email hp' (Some s') e'"
    by blast
  then show ?thesis
    by (auto simp: index_shared_data_is_cur_email_def)
qed

section \<open>Properties of the maildir field delimiter validator\<close>

lemma deref_cstr: "deref s = (case cstr s of [] \<Rightarrow> NUL | c # _ \<Rightarrow> c)"
  by (cases s) (auto simp: deref_def cstr_def)

lemma strlen_one: "strlen v = 1 \<Longrightarrow> cstr v = [deref v] \<and> deref v \<noteq> NUL"
proof -
  assume a: "strlen v = 1"
  then obtain c where c: "cstr v = [c]"
    by (cases "cstr v") (auto simp: strlen_def)
  then have "c \<in> set (takeWhile (\<lambda>c. c \<noteq> NUL) v)" by (simp add: cstr_def)
  then have "c \<noteq> NUL" by (rule set_takeWhileD [THEN conjunct2])
  with c show ?thesis by (simp add: deref_cstr)
qed

lemma cstr_differs:
  assumes "strlen v = 1" "strlen i \<le> 1" "cstr v \<noteq> cstr i"
  shows "deref v \<noteq> deref i"
proof (cases "cstr i")
  case Nil
  then have "deref i = NUL" by (simp add: deref_cstr)
  with strlen_one [OF assms(1)] show ?thesis by simp
next
  case (Cons c cs)
  with assms(2) have i: "cstr i = [c]" by (simp add: strlen_def)
  then have "deref i = c" by (simp add: deref_cstr)
  with i assms(3) strlen_one [OF assms(1)] show ?thesis by auto
qed

lemma validator_success:
  "maildir_field_delimiter_validator changed cdef v e = (CSR_SUCCESS, changed', e') \<Longrightarrow>
   strlen v = 1 \<and> \<not> isalnum (deref v) \<and> \<not> strchr forbidden_delimiters (deref v)
   \<and> \<not> changed \<and> e' = e \<and> changed' = (deref v \<noteq> deref (initial cdef))"
  by (auto simp: maildir_field_delimiter_validator_def Let_def split: if_splits)

lemma validator_locked:
  "maildir_field_delimiter_validator True cdef v e = (rc, changed', e') \<Longrightarrow>
   rc = CSR_ERR_INVALID \<and> changed'"
  by (auto simp: maildir_field_delimiter_validator_def Let_def split: if_splits)

lemma validations_locked:
  "validations True xs = (replicate (length xs) CSR_ERR_INVALID, True)"
proof (induction xs)
  case Nil
  show ?case by simp
next
  case (Cons x xs)
  obtain cdef v where x: "x = (cdef, v)" by (cases x)
  obtain rc ch e where r: "maildir_field_delimiter_validator True cdef v [] = (rc, ch, e)"
    by (cases "maildir_field_delimiter_validator True cdef v []")
  from validator_locked [OF r] have "rc = CSR_ERR_INVALID" "ch" by simp_all
  with Cons.IH x r show ?case by simp
qed

lemma validator_initial:
  "maildir_field_delimiter_validator changed MaildirVars_field_delimiter
      (initial MaildirVars_field_delimiter) err
   = (if changed then (CSR_ERR_INVALID, True, ''maildir_field_delimiter can only be set once'')
      else (CSR_SUCCESS, False, err))"
  by (simp add: maildir_field_delimiter_validator_def MaildirVars_field_delimiter_def
      strlen_def cstr_def NUL_def deref_def isalnum_def strchr_def forbidden_delimiters_def)

lemma validations_initial:
  "validations False (replicate n (MaildirVars_field_delimiter, initial MaildirVars_field_delimiter))
     = (replicate n CSR_SUCCESS, False)"
  by (induction n) (simp_all add: validator_initial)

lemma flag_set_only:
  "maildir_field_delimiter_validator changed cdef value err = (rc, changed', err') \<Longrightarrow>
   \<not> changed \<Longrightarrow> changed' \<Longrightarrow> rc = CSR_SUCCESS \<and> deref value \<noteq> deref (initial cdef)"
  by (auto simp: maildir_field_delimiter_validator_def Let_def split: if_splits)

lemma validator_semicolon:
  "maildir_field_delimiter_validator False MaildirVars_field_delimiter '';'' []
     = (CSR_SUCCESS, True, [])"
  by (simp add: maildir_field_delimiter_validator_def MaildirVars_field_delimiter_def
      strlen_def cstr_def NUL_def deref_def isalnum_def strchr_def forbidden_delimiters_def)

text \<open>
  C7. The validator of \<open>maildir_field_delimiter\<close> keeps a flag that is set once. A value is
  accepted (\<open>CSR_SUCCESS\<close>) only if it is exactly one character long and that character is
  neither alphanumeric nor one of minus, dot, backslash and slash. Once a validation has
  accepted a value that differs from the initial value (one character at most, which the
  default \<open>":"\<close> is), every later validation returns \<open>CSR_ERR_INVALID\<close>, whatever
  definition and value it is given, and the flag stays set.
\<close>

theorem validator_single_delimiter_set_once:
  "maildir_field_delimiter_validator changed cdef value err = (CSR_SUCCESS, changed', err') \<Longrightarrow>
   strlen value = 1 \<and> \<not> isalnum (deref value) \<and> deref value \<notin> set forbidden_delimiters
   \<and> (strlen (initial cdef) \<le> 1 \<and> cstr value \<noteq> cstr (initial cdef) \<longrightarrow>
        (\<forall>attempts. validations changed' attempts
            = (replicate (length attempts) CSR_ERR_INVALID, True)))"
proof -
  assume a: "maildir_field_delimiter_validator changed cdef value err = (CSR_SUCCESS, changed', err')"
  note s = validator_success [OF a]
  have 1: "strlen value = 1" "\<not> isalnum (deref value)" using s by simp_all
  have 2: "deref value \<notin> set forbidden_delimiters"
    using s by (auto simp: strchr_def cstr_def forbidden_delimiters_def NUL_def)
  have 3: "\<forall>attempts. validations changed' attempts
            = (replicate (length attempts) CSR_ERR_INVALID, True)"
    if "strlen (initial cdef) \<le> 1" "cstr value \<noteq> cstr (initial cdef)"
  proof -
    from cstr_differs [OF 1(1) that] s have "changed'" by simp
    then show ?thesis by (simp add: validations_locked)
  qed
  from 1 2 3 show ?thesis by blast
qed

theorem validator_single_delimiter_set_once_witness:
  "maildir_field_delimiter_validator False MaildirVars_field_delimiter '';'' []
     = (CSR_SUCCESS, True, [])
   \<and> strlen (initial MaildirVars_field_delimiter) \<le> 1
   \<and> cstr '';'' \<noteq> cstr (initial MaildirVars_field_delimiter)
   \<and> strlen '';'' = 1 \<and> \<not> isalnum (deref '';'') \<and> deref '';'' \<notin> set forbidden_delimiters
   \<and> validations True
        [(MaildirVars_field_delimiter, '':''), (MaildirVars_field_delimiter, '';''),
         (MaildirVars_field_delimiter, '',''), (MaildirVars_field_delimiter, ''ab'')]
       = ([CSR_ERR_INVALID, CSR_ERR_INVALID, CSR_ERR_INVALID, CSR_ERR_INVALID], True)"
proof -
  have h: "strlen (initial MaildirVars_field_delimiter) \<le> 1
           \<and> cstr '';'' \<noteq> cstr (initial MaildirVars_field_delimiter)"
    by (simp add: MaildirVars_field_delimiter_def strlen_def cstr_def NUL_def)
  from validator_single_delimiter_set_once [OF validator_semicolon] h
  have "strlen '';'' = 1 \<and> \<not> isalnum (deref '';'') \<and> deref '';'' \<notin> set forbidden_delimiters
        \<and> (\<forall>attempts. validations True attempts
              = (replicate (length attempts) CSR_ERR_INVALID, True))"
    by blast
  then have "strlen '';'' = 1 \<and> \<not> isalnum (deref '';'') \<and> deref '';'' \<notin> set forbidden_delimiters
        \<and> validations True
            [(MaildirVars_field_delimiter, '':''), (MaildirVars_field_delimiter, '';''),
             (MaildirVars_field_delimiter, '',''), (MaildirVars_field_delimiter, ''ab'')]
           = (replicate (length
                [(MaildirVars_field_delimiter, '':''), (MaildirVars_field_delimiter, '';''),
                 (MaildirVars_field_delimiter, '',''), (MaildirVars_field_delimiter, ''ab'')])
               CSR_ERR_INVALID, True)"
    by blast
  with h validator_semicolon show ?thesis
    by (simp add: numeral_eq_Suc)
qed

text \<open>
  C10. The flag of the validator is set only by a validation that accepts a value
  different from the initial value of the definition. Validating the initial default
  \<open>":"\<close> of \<open>maildir_field_delimiter\<close> again succeeds any number of times while the flag is
  not set, and leaves the flag as it was.
\<close>

theorem validator_initial_value_never_locks:
  "(maildir_field_delimiter_validator changed cdef value err = (rc, changed', err')
      \<and> \<not> changed \<and> changed' \<longrightarrow> rc = CSR_SUCCESS \<and> cstr value \<noteq> cstr (initial cdef))
   \<and> validations False
        (replicate n (MaildirVars_field_delimiter, initial MaildirVars_field_delimiter))
       = (replicate n CSR_SUCCESS, False)
   \<and> fst (snd (maildir_field_delimiter_validator changed MaildirVars_field_delimiter
        (initial MaildirVars_field_delimiter) err)) = changed"
proof -
  have "rc = CSR_SUCCESS \<and> cstr value \<noteq> cstr (initial cdef)"
    if "maildir_field_delimiter_validator changed cdef value err = (rc, changed', err')"
      "\<not> changed" "changed'"
    using flag_set_only [OF that] by (auto simp: deref_cstr)
  then show ?thesis
    by (simp add: validations_initial validator_initial)
qed

theorem validator_initial_value_never_locks_witness:
  "maildir_field_delimiter_validator False MaildirVars_field_delimiter '';'' []
     = (CSR_SUCCESS, True, [])
   \<and> cstr '';'' \<noteq> cstr (initial MaildirVars_field_delimiter)
   \<and> validations False
        [(MaildirVars_field_delimiter, '':''), (MaildirVars_field_delimiter, '':''),
         (MaildirVars_field_delimiter, '':'')]
       = ([CSR_SUCCESS, CSR_SUCCESS, CSR_SUCCESS], False)
   \<and> fst (snd (maildir_field_delimiter_validator False MaildirVars_field_delimiter '':'' []))
       = False"
proof -
  have i: "initial MaildirVars_field_delimiter = '':''"
    by (simp add: MaildirVars_field_delimiter_def)
  from validator_initial_value_never_locks
         [of False MaildirVars_field_delimiter "'';''" "[]" CSR_SUCCESS True "[]" 3]
       validator_semicolon i
  show ?thesis
    by (simp add: numeral_eq_Suc)
qed

section \<open>Properties of the GDBM backend\<close>

subsection \<open>Conversions and single calls\<close>

lemma int_of_size_t_exact: "n \<le> INT_MAX \<Longrightarrow> int_of_size_t n = int n"
proof -
  assume "n \<le> INT_MAX"
  then have "int n < 2 ^ 31" by (simp add: INT_MAX_def)
  then have "signed_take_bit 31 (int n) = int n"
    by (simp add: signed_take_bit_int_eq_self)
  moreover have "int_of_size_t n = sint (word_of_int (int n) :: 32 word)"
    by (simp add: int_of_size_t_def)
  ultimately show ?thesis
    by (simp only: sint_sbintrunc') simp
qed

text \<open>Without the guard the conversion would hand the engine a negative length.\<close>

lemma int_of_size_t_wraps: "int_of_size_t 2147483648 = - 2147483648"
  by (simp add: int_of_size_t_def)

lemma size_t_of_int_exact: "n \<le> INT_MAX \<Longrightarrow> size_t_of_int (int n) = n"
proof -
  assume "n \<le> INT_MAX"
  then have "int n < 2 ^ 64" by (simp add: INT_MAX_def)
  then show ?thesis by (simp add: size_t_of_int_def)
qed

lemma size_t_of_int_zero: "size_t_of_int 0 = 0"
  by (simp add: size_t_of_int_def)

lemma key_bytes:
  "klen \<le> INT_MAX \<Longrightarrow>
   datum_bytes \<lparr>dptr = Some key, dsize = int_of_size_t klen\<rparr> = Some (take klen key)"
  by (simp add: datum_bytes_def int_of_size_t_exact)

lemma handle_info_cong:
  "handles w1 = handles w \<Longrightarrow> handle_info w1 h = handle_info w h"
  by (simp add: handle_info_def)

lemma store_gdbm_store_success:
  assumes "store_gdbm_store w (Some h) key klen value vlen = (w1, 0)"
  shows "\<exists>info kb vb. key = Some kb \<and> value = Some vb
           \<and> handle_info w h = Some info \<and> read_write info = GDBM_WRCREAT
           \<and> klen \<le> INT_MAX \<and> vlen \<le> INT_MAX
           \<and> handles w1 = handles w
           \<and> files w1 = (files w)(db_name info :=
                (files w (db_name info))(take klen kb \<mapsto> take vlen vb))"
proof -
  from assms have l: "klen \<le> INT_MAX" "vlen \<le> INT_MAX"
    by (auto simp: store_gdbm_store_def split: if_splits)
  from assms l obtain info where i: "handle_info w h = Some info"
    by (cases "handle_info w h") (auto simp: store_gdbm_store_def gdbm_store_def Let_def)
  from assms l i have m: "read_write info = GDBM_WRCREAT"
    by (cases "read_write info") (auto simp: store_gdbm_store_def gdbm_store_def Let_def)
  from assms l i m obtain kb where k: "key = Some kb"
    by (cases key)
      (auto simp: store_gdbm_store_def gdbm_store_def Let_def datum_bytes_def)
  from assms l i m k obtain vb where v: "value = Some vb"
    by (cases "value")
      (auto simp: store_gdbm_store_def gdbm_store_def Let_def datum_bytes_def)
  from assms l i m k v show ?thesis
    by (auto simp: store_gdbm_store_def gdbm_store_def Let_def key_bytes logged_def
        split: if_splits)
qed

lemma store_gdbm_store_writer:
  assumes "handle_info w h = Some info" "read_write info = GDBM_WRCREAT"
    "klen \<le> INT_MAX" "vlen \<le> INT_MAX" "\<not> backend_failure w (length (calls w))"
  shows "snd (store_gdbm_store w (Some h) (Some key) klen (Some value) vlen) = 0"
  using assms
  by (simp add: store_gdbm_store_def gdbm_store_def Let_def key_bytes)

lemma store_gdbm_store_reader:
  assumes "handle_info w h = Some info" "read_write info = GDBM_READER"
  shows "snd (store_gdbm_store w (Some h) key klen value vlen) = - 1
         \<and> files (fst (store_gdbm_store w (Some h) key klen value vlen)) = files w
         \<and> handles (fst (store_gdbm_store w (Some h) key klen value vlen)) = handles w"
  using assms
  by (simp add: store_gdbm_store_def gdbm_store_def Let_def logged_def)

lemma store_gdbm_fetch_reads_files:
  assumes "files w' = files w" "handles w' = handles w"
  shows "snd (store_gdbm_fetch w' store key klen n) = snd (store_gdbm_fetch w store key klen n)"
  using assms
  by (simp add: store_gdbm_fetch_def gdbm_fetch_def handle_info_def Let_def
      split: option.splits)

lemma store_gdbm_fetch_open:
  assumes "handle_info w h = Some info" "klen \<le> INT_MAX"
  shows "store_gdbm_fetch w (Some h) key klen n =
          (logged w (Call_gdbm_fetch h \<lparr>dptr = Some key, dsize = int klen\<rparr>),
           case files w (db_name info) (take klen key) of
             None \<Rightarrow> (None, 0)
           | Some v \<Rightarrow> (Some v, size_t_of_int (int (length v))))"
  using assms
  by (simp add: store_gdbm_fetch_def gdbm_fetch_def Let_def datum_bytes_def datum_null_def
      int_of_size_t_exact size_t_of_int_zero split: option.splits)

lemma open_read_only:
  "store_gdbm_open world_read_only (Some ''/tmp/cache.db'')
   = (world_read_only\<lparr>handles := [Some \<lparr>db_name = ''/tmp/cache.db'', read_write = GDBM_READER\<rparr>],
        calls := [Call_gdbm_open ''/tmp/cache.db'' 4096 GDBM_WRCREAT 384,
                  Call_gdbm_open ''/tmp/cache.db'' 4096 GDBM_READER 384]\<rparr>, Some 0)"
  by (simp add: store_gdbm_open_def gdbm_open_def world_read_only_def logged_def Let_def)

lemma open_writable:
  "store_gdbm_open world_writable (Some ''/tmp/cache.db'')
   = (world_writable\<lparr>handles := [Some \<lparr>db_name = ''/tmp/cache.db'', read_write = GDBM_WRCREAT\<rparr>],
        calls := [Call_gdbm_open ''/tmp/cache.db'' 4096 GDBM_WRCREAT 384]\<rparr>, Some 0)"
  by (simp add: store_gdbm_open_def gdbm_open_def world_writable_def logged_def Let_def)

subsection \<open>Store, then fetch\<close>

text \<open>
  A store on a read-write handle fails when the value pointer is \<open>NULL\<close>, and when the
  engine reports an internal error.
\<close>

lemma store_null_value_fails:
  "snd (store_gdbm_store (fst (store_gdbm_open world_writable (Some ''/tmp/cache.db'')))
     (Some 0) (Some [1]) 1 None 0) = - 1"
  unfolding open_writable fst_conv
  by (simp add: store_gdbm_store_def gdbm_store_def handle_info_def logged_def Let_def
      INT_MAX_def datum_bytes_def int_of_size_t_def world_writable_def)

lemma store_backend_failure_fails:
  "snd (store_gdbm_store (fst (store_gdbm_open world_failing (Some ''/tmp/cache.db'')))
     (Some 0) (Some [1]) 1 (Some [9]) 1) = - 1"
  by (simp add: store_gdbm_open_def gdbm_open_def store_gdbm_store_def gdbm_store_def
      handle_info_def logged_def Let_def INT_MAX_def datum_bytes_def int_of_size_t_def
      world_failing_def)

text \<open>
  C1, as the spec states it, fails: a handle that \<open>store_gdbm_open\<close> got from its read-only
  second attempt is open, and on it a store of \<open>[9]\<close> under the key \<open>[1]\<close> fails with -1 and
  the fetch that follows returns the record \<open>[7]\<close> that was there.
\<close>

theorem store_on_read_only_handle_counterexample:
  "snd (store_gdbm_open world_read_only (Some ''/tmp/cache.db'')) = Some 0
   \<and> handle_info (fst (store_gdbm_open world_read_only (Some ''/tmp/cache.db''))) 0
       = Some \<lparr>db_name = ''/tmp/cache.db'', read_write = GDBM_READER\<rparr>
   \<and> snd (store_gdbm_store (fst (store_gdbm_open world_read_only (Some ''/tmp/cache.db'')))
        (Some 0) (Some [1]) 1 (Some [9]) 1) = - 1
   \<and> snd (store_gdbm_fetch
        (fst (store_gdbm_store (fst (store_gdbm_open world_read_only (Some ''/tmp/cache.db'')))
           (Some 0) (Some [1]) 1 (Some [9]) 1))
        (Some 0) [1] 1 0) = (Some [7], 1)
   \<and> Some [7] \<noteq> Some [9 :: byte]"
  unfolding open_read_only fst_conv snd_conv
  by (simp add: store_gdbm_store_def store_gdbm_fetch_def
      gdbm_store_def gdbm_fetch_def handle_info_def logged_def Let_def INT_MAX_def
      datum_bytes_def int_of_size_t_def size_t_of_int_def world_read_only_def)

text \<open>
  C1, amended, in three parts. First: whenever a store of a key and a value on a handle
  returns 0, in any world and so whatever was stored under the key before, the fetch of
  the same key on that handle returns exactly the \<open>vlen\<close> bytes stored and their length;
  the record there was replaced, not kept and not appended to. Second: on a handle that
  is open in read-write mode, a store of a key and a value that are not \<open>NULL\<close>, with both
  lengths within \<open>INT_MAX\<close>, returns 0 unless the engine reports an internal error. Third:
  on a handle that is open in read-only mode every store returns -1 and changes no
  record, and any fetch after it returns what the same fetch returned before it.
\<close>

theorem store_then_fetch_on_open_handle:
  "(store_gdbm_store w (Some h) (Some key) klen (Some val) vlen = (w1, 0)
      \<longrightarrow> snd (store_gdbm_fetch w1 (Some h) key klen n)
            = (Some (take vlen val), length (take vlen val)))
   \<and> (handle_info w h = Some info \<and> read_write info = GDBM_WRCREAT
        \<and> klen \<le> INT_MAX \<and> vlen \<le> INT_MAX \<and> \<not> backend_failure w (length (calls w))
      \<longrightarrow> snd (store_gdbm_store w (Some h) (Some key) klen (Some val) vlen) = 0)
   \<and> (handle_info w h = Some info \<and> read_write info = GDBM_READER
      \<longrightarrow> snd (store_gdbm_store w (Some h) kp klen vp vlen) = - 1
          \<and> files (fst (store_gdbm_store w (Some h) kp klen vp vlen)) = files w
          \<and> snd (store_gdbm_fetch (fst (store_gdbm_store w (Some h) kp klen vp vlen))
                 (Some h) fkey fklen n)
              = snd (store_gdbm_fetch w (Some h) fkey fklen n))"
proof -
  have a: "snd (store_gdbm_fetch w1 (Some h) key klen n)
            = (Some (take vlen val), length (take vlen val))"
    if s: "store_gdbm_store w (Some h) (Some key) klen (Some val) vlen = (w1, 0)"
  proof -
    from store_gdbm_store_success [OF s] obtain info' where
      i: "handle_info w h = Some info'" and l: "klen \<le> INT_MAX" "vlen \<le> INT_MAX"
      and hs: "handles w1 = handles w"
      and f: "files w1 = (files w)(db_name info' :=
                (files w (db_name info'))(take klen key \<mapsto> take vlen val))"
      by blast
    from hs have "handle_info w1 h = handle_info w h"
      by (rule handle_info_cong)
    with i have i1: "handle_info w1 h = Some info'"
      by (simp only:)
    have "length (take vlen val) \<le> INT_MAX" using l by simp
    then have sz: "size_t_of_int (int (length (take vlen val))) = length (take vlen val)"
      by (rule size_t_of_int_exact)
    have "files w1 (db_name info') (take klen key) = Some (take vlen val)"
      by (simp add: f)
    with store_gdbm_fetch_open [OF i1 l(1), of key n] sz show ?thesis
      by simp
  qed
  have b: "snd (store_gdbm_store w (Some h) (Some key) klen (Some val) vlen) = 0"
    if "handle_info w h = Some info" "read_write info = GDBM_WRCREAT"
      "klen \<le> INT_MAX" "vlen \<le> INT_MAX" "\<not> backend_failure w (length (calls w))"
    using that by (rule store_gdbm_store_writer)
  have c: "snd (store_gdbm_store w (Some h) kp klen vp vlen) = - 1
          \<and> files (fst (store_gdbm_store w (Some h) kp klen vp vlen)) = files w
          \<and> snd (store_gdbm_fetch (fst (store_gdbm_store w (Some h) kp klen vp vlen))
                 (Some h) fkey fklen n)
              = snd (store_gdbm_fetch w (Some h) fkey fklen n)"
    if r: "handle_info w h = Some info" "read_write info = GDBM_READER"
  proof -
    note st = store_gdbm_store_reader [OF r, of kp klen vp vlen]
    from st have "files (fst (store_gdbm_store w (Some h) kp klen vp vlen)) = files w"
      and "handles (fst (store_gdbm_store w (Some h) kp klen vp vlen)) = handles w"
      by simp_all
    then have "snd (store_gdbm_fetch (fst (store_gdbm_store w (Some h) kp klen vp vlen))
                 (Some h) fkey fklen n)
              = snd (store_gdbm_fetch w (Some h) fkey fklen n)"
      by (rule store_gdbm_fetch_reads_files)
    with st show ?thesis by simp
  qed
  from a b c show ?thesis by blast
qed

theorem store_then_fetch_on_open_handle_witness:
  "handle_info
       (fst (store_gdbm_store (fst (store_gdbm_open world_writable (Some ''/tmp/cache.db'')))
          (Some 0) (Some [1, 2, 3]) 3 (Some [5, 5, 5]) 3)) 0
     = Some \<lparr>db_name = ''/tmp/cache.db'', read_write = GDBM_WRCREAT\<rparr>
   \<and> files
       (fst (store_gdbm_store (fst (store_gdbm_open world_writable (Some ''/tmp/cache.db'')))
          (Some 0) (Some [1, 2, 3]) 3 (Some [5, 5, 5]) 3)) ''/tmp/cache.db'' [1, 2, 3]
     = Some [5, 5, 5]
   \<and> (3::nat) \<le> INT_MAX \<and> (2::nat) \<le> INT_MAX
   \<and> snd (store_gdbm_store
        (fst (store_gdbm_store (fst (store_gdbm_open world_writable (Some ''/tmp/cache.db'')))
          (Some 0) (Some [1, 2, 3]) 3 (Some [5, 5, 5]) 3))
        (Some 0) (Some [1, 2, 3]) 3 (Some [7, 8]) 2) = 0
   \<and> snd (store_gdbm_fetch
        (fst (store_gdbm_store
          (fst (store_gdbm_store (fst (store_gdbm_open world_writable (Some ''/tmp/cache.db'')))
            (Some 0) (Some [1, 2, 3]) 3 (Some [5, 5, 5]) 3))
          (Some 0) (Some [1, 2, 3]) 3 (Some [7, 8]) 2))
        (Some 0) [1, 2, 3] 3 0) = (Some [7, 8], 2)
   \<and> handle_info (fst (store_gdbm_open world_read_only (Some ''/tmp/cache.db''))) 0
       = Some \<lparr>db_name = ''/tmp/cache.db'', read_write = GDBM_READER\<rparr>
   \<and> snd (store_gdbm_store (fst (store_gdbm_open world_read_only (Some ''/tmp/cache.db'')))
        (Some 0) (Some [1]) 1 (Some [9]) 1) = - 1
   \<and> snd (store_gdbm_fetch
        (fst (store_gdbm_store (fst (store_gdbm_open world_read_only (Some ''/tmp/cache.db'')))
           (Some 0) (Some [1]) 1 (Some [9]) 1))
        (Some 0) [1] 1 0)
       = snd (store_gdbm_fetch (fst (store_gdbm_open world_read_only (Some ''/tmp/cache.db'')))
           (Some 0) [1] 1 0)"
proof -
  let ?W = "fst (store_gdbm_store (fst (store_gdbm_open world_writable (Some ''/tmp/cache.db'')))
          (Some 0) (Some [1, 2, 3]) 3 (Some [5, 5, 5]) 3)"
  let ?info = "\<lparr>db_name = ''/tmp/cache.db'', read_write = GDBM_WRCREAT\<rparr>"
  let ?st = "store_gdbm_store ?W (Some 0) (Some [1, 2, 3]) 3 (Some [7, 8]) 2"
  let ?R = "fst (store_gdbm_open world_read_only (Some ''/tmp/cache.db''))"
  let ?rinfo = "\<lparr>db_name = ''/tmp/cache.db'', read_write = GDBM_READER\<rparr>"
  have i: "handle_info ?W 0 = Some ?info"
    and f: "files ?W ''/tmp/cache.db'' [1, 2, 3] = Some [5, 5, 5]"
    and nf: "\<not> backend_failure ?W (length (calls ?W))"
    unfolding open_writable fst_conv
    by (simp_all add: store_gdbm_store_def gdbm_store_def handle_info_def logged_def Let_def
        INT_MAX_def datum_bytes_def int_of_size_t_def world_writable_def)
  have h: "handle_info ?W 0 = Some ?info \<and> read_write ?info = GDBM_WRCREAT
           \<and> (3::nat) \<le> INT_MAX \<and> (2::nat) \<le> INT_MAX
           \<and> \<not> backend_failure ?W (length (calls ?W))"
    using i nf by (simp add: INT_MAX_def)
  note t = store_then_fetch_on_open_handle
             [where w = ?W and h = 0 and info = ?info and klen = 3 and vlen = 2
                and key = "[1, 2, 3]" and val = "[7, 8]" and ?w1.0 = "fst ?st" and n = 0]
  from t h have ok: "snd ?st = 0" by blast
  then have "?st = (fst ?st, 0)" by (simp add: prod_eq_iff)
  with t have "snd (store_gdbm_fetch (fst ?st) (Some 0) [1, 2, 3] 3 0)
                 = (Some (take 2 [7, 8]), length (take 2 [7, 8 :: byte]))"
    by blast
  then have r: "snd (store_gdbm_fetch (fst ?st) (Some 0) [1, 2, 3] 3 0) = (Some [7, 8], 2)"
    by simp
  have ri: "handle_info ?R 0 = Some ?rinfo \<and> read_write ?rinfo = GDBM_READER"
    unfolding open_read_only fst_conv by (simp add: handle_info_def)
  note u = store_then_fetch_on_open_handle
             [where w = ?R and h = 0 and info = ?rinfo and klen = 1 and vlen = 1
                and kp = "Some [1]" and vp = "Some [9]" and fkey = "[1]" and fklen = 1 and n = 0]
  from u ri have ro: "snd (store_gdbm_store ?R (Some 0) (Some [1]) 1 (Some [9]) 1) = - 1
      \<and> snd (store_gdbm_fetch (fst (store_gdbm_store ?R (Some 0) (Some [1]) 1 (Some [9]) 1))
             (Some 0) [1] 1 0)
          = snd (store_gdbm_fetch ?R (Some 0) [1] 1 0)"
    by blast
  from h f ok r ri ro show ?thesis by (simp only: simp_thms)
qed

subsection \<open>Opening\<close>

text \<open>
  C2. \<open>store_gdbm_open\<close> with a \<open>NULL\<close> path returns \<open>NULL\<close> and calls nothing. With a path
  it first calls \<open>gdbm_open\<close> in mode \<open>GDBM_WRCREAT\<close>. If that attempt succeeds its handle
  is the result and no other call is made; if and only if it fails there is one more call,
  in mode \<open>GDBM_READER\<close>, and its result is returned. So the result is \<open>NULL\<close> exactly when
  both attempts fail.
\<close>

theorem store_gdbm_open_fallback:
  "store_gdbm_open w None = (w, None)
   \<and> (store_gdbm_open w (Some p) = (w', r) \<longrightarrow>
        (let rw = gdbm_open w p 4096 GDBM_WRCREAT 384;
             ro = gdbm_open (fst rw) p 4096 GDBM_READER 384
         in (snd rw \<noteq> None \<longrightarrow>
               (w', r) = rw
               \<and> calls w' = calls w @ [Call_gdbm_open p 4096 GDBM_WRCREAT 384])
            \<and> (snd rw = None \<longrightarrow>
               (w', r) = ro
               \<and> calls w' = calls w @ [Call_gdbm_open p 4096 GDBM_WRCREAT 384,
                                        Call_gdbm_open p 4096 GDBM_READER 384])
            \<and> (r = None \<longleftrightarrow> snd rw = None \<and> snd ro = None)))"
  by (auto simp: store_gdbm_open_def gdbm_open_def logged_def Let_def split: if_splits)

theorem store_gdbm_open_fallback_witness:
  "store_gdbm_open world_read_only (Some ''/tmp/cache.db'')
     = (fst (store_gdbm_open world_read_only (Some ''/tmp/cache.db'')), Some 0)
   \<and> snd (gdbm_open world_read_only ''/tmp/cache.db'' 4096 GDBM_WRCREAT 384) = None
   \<and> calls (fst (store_gdbm_open world_read_only (Some ''/tmp/cache.db'')))
       = [Call_gdbm_open ''/tmp/cache.db'' 4096 GDBM_WRCREAT 384,
          Call_gdbm_open ''/tmp/cache.db'' 4096 GDBM_READER 384]
   \<and> store_gdbm_open world_unavailable (Some ''/tmp/cache.db'')
     = (fst (store_gdbm_open world_unavailable (Some ''/tmp/cache.db'')), None)
   \<and> store_gdbm_open world_writable (Some ''/tmp/cache.db'')
     = (fst (store_gdbm_open world_writable (Some ''/tmp/cache.db'')), Some 0)
   \<and> calls (fst (store_gdbm_open world_writable (Some ''/tmp/cache.db'')))
       = [Call_gdbm_open ''/tmp/cache.db'' 4096 GDBM_WRCREAT 384]"
proof -
  let ?p = "''/tmp/cache.db''"
  have o: "store_gdbm_open world_read_only (Some ?p)
             = (fst (store_gdbm_open world_read_only (Some ?p)), Some 0)"
    by (simp add: open_read_only)
  have f: "snd (gdbm_open world_read_only ?p 4096 GDBM_WRCREAT 384) = None"
    by (simp add: gdbm_open_def world_read_only_def Let_def)
  note t = store_gdbm_open_fallback [of world_read_only ?p "fst (store_gdbm_open world_read_only (Some ?p))" "Some 0",
      unfolded Let_def]
  from t o f have c: "calls (fst (store_gdbm_open world_read_only (Some ?p)))
          = calls world_read_only @ [Call_gdbm_open ?p 4096 GDBM_WRCREAT 384,
                                     Call_gdbm_open ?p 4096 GDBM_READER 384]"
    by blast
  have e: "calls world_read_only = []"
    by (simp add: world_read_only_def)
  have u: "store_gdbm_open world_unavailable (Some ?p)
             = (fst (store_gdbm_open world_unavailable (Some ?p)), None)"
    by (simp add: store_gdbm_open_def gdbm_open_def world_unavailable_def logged_def Let_def)
  have wr: "store_gdbm_open world_writable (Some ?p)
             = (fst (store_gdbm_open world_writable (Some ?p)), Some 0)"
       "calls (fst (store_gdbm_open world_writable (Some ?p)))
          = [Call_gdbm_open ?p 4096 GDBM_WRCREAT 384]"
    by (simp_all add: open_writable)
  from o f c e u wr show ?thesis
    by (simp only: append_Nil simp_thms)
qed

subsection \<open>Guards\<close>

text \<open>
  C3. When the handle is \<open>NULL\<close>, or the key length exceeds \<open>INT_MAX\<close>, or (for a store)
  the value length exceeds \<open>INT_MAX\<close>, then store and delete return -1 and fetch returns
  \<open>NULL\<close>, and the world after the call is the world before it: no record is written
  and the log of the engine's calls has not grown, so the engine was not called.
\<close>

theorem guards_reject_without_engine_call:
  "(store = None \<or> klen > INT_MAX \<or> vlen > INT_MAX \<longrightarrow>
      store_gdbm_store w store kp klen vp vlen = (w, - 1))
   \<and> (store = None \<or> klen > INT_MAX \<longrightarrow>
      fst (store_gdbm_fetch w store key klen n) = w
      \<and> fst (snd (store_gdbm_fetch w store key klen n)) = None)
   \<and> (store = None \<or> klen > INT_MAX \<longrightarrow>
      store_gdbm_delete_record w store key klen = (w, - 1))"
  by (auto simp: store_gdbm_store_def store_gdbm_fetch_def store_gdbm_delete_record_def
      split: option.splits)

theorem guards_reject_without_engine_call_witness:
  "(2147483648::nat) > INT_MAX
   \<and> handle_info (fst (store_gdbm_open world_writable (Some ''/tmp/cache.db''))) 0
       = Some \<lparr>db_name = ''/tmp/cache.db'', read_write = GDBM_WRCREAT\<rparr>
   \<and> store_gdbm_store (fst (store_gdbm_open world_writable (Some ''/tmp/cache.db'')))
        (Some 0) (Some [1]) 1 (Some [2]) 2147483648
       = (fst (store_gdbm_open world_writable (Some ''/tmp/cache.db'')), - 1)
   \<and> store_gdbm_store (fst (store_gdbm_open world_writable (Some ''/tmp/cache.db'')))
        (Some 0) (Some [1]) 2147483648 (Some [2]) 1
       = (fst (store_gdbm_open world_writable (Some ''/tmp/cache.db'')), - 1)
   \<and> store_gdbm_store world_writable None (Some [1]) 1 (Some [2]) 1 = (world_writable, - 1)
   \<and> fst (store_gdbm_fetch (fst (store_gdbm_open world_writable (Some ''/tmp/cache.db'')))
        (Some 0) [1] 2147483648 0)
       = fst (store_gdbm_open world_writable (Some ''/tmp/cache.db''))
   \<and> fst (snd (store_gdbm_fetch (fst (store_gdbm_open world_writable (Some ''/tmp/cache.db'')))
        (Some 0) [1] 2147483648 0)) = None
   \<and> store_gdbm_delete_record (fst (store_gdbm_open world_writable (Some ''/tmp/cache.db'')))
        (Some 0) [1] 2147483648
       = (fst (store_gdbm_open world_writable (Some ''/tmp/cache.db'')), - 1)"
proof -
  let ?W = "fst (store_gdbm_open world_writable (Some ''/tmp/cache.db''))"
  have h: "(2147483648::nat) > INT_MAX" by (simp add: INT_MAX_def)
  have i: "handle_info ?W 0 = Some \<lparr>db_name = ''/tmp/cache.db'', read_write = GDBM_WRCREAT\<rparr>"
    unfolding open_writable fst_conv by (simp add: handle_info_def)
  from h i
    guards_reject_without_engine_call
      [where store = "Some 0" and klen = 2147483648 and vlen = 1 and w = ?W
         and kp = "Some [1]" and vp = "Some [2]" and key = "[1]" and n = 0]
    guards_reject_without_engine_call
      [where store = "Some 0" and klen = 1 and vlen = 2147483648 and w = ?W
         and kp = "Some [1]" and vp = "Some [2]" and key = "[1]" and n = 0]
    guards_reject_without_engine_call
      [where store = None and klen = 1 and vlen = 1 and w = world_writable
         and kp = "Some [1]" and vp = "Some [2]" and key = "[1]" and n = 0]
  show ?thesis by simp
qed

subsection \<open>Fetch without a result\<close>

text \<open>
  C4, as the spec states it, fails: with a \<open>NULL\<close> handle, or with a key length above
  \<open>INT_MAX\<close>, the function returns before it writes \<open>*vlen\<close>, so the length the caller
  reads is what the variable held before the call, here 7 and not 0.
\<close>

theorem store_gdbm_fetch_length_unwritten_counterexample:
  "store_gdbm_fetch world_writable None [1] 1 7 = (world_writable, None, 7)
   \<and> snd (store_gdbm_fetch world_writable None [1] 1 7) \<noteq> (None, 0)
   \<and> snd (store_gdbm_fetch (fst (store_gdbm_open world_writable (Some ''/tmp/cache.db'')))
        (Some 0) [1] 2147483648 7) \<noteq> (None, 0)"
  by (simp add: store_gdbm_fetch_def INT_MAX_def)

text \<open>
  C4, amended. With a \<open>NULL\<close> handle or a key length above \<open>INT_MAX\<close>, fetch returns \<open>NULL\<close>,
  leaves \<open>*vlen\<close> as the caller set it and leaves the world as it was. With an open handle,
  a key length within \<open>INT_MAX\<close> and a key that is absent from the database, fetch returns
  \<open>NULL\<close> and sets \<open>*vlen\<close> to 0, and the databases and the handles are unchanged.
\<close>

theorem store_gdbm_fetch_null_results:
  "(store = None \<or> klen > INT_MAX \<longrightarrow> store_gdbm_fetch w store key klen n = (w, None, n))
   \<and> (handle_info w h = Some info \<and> klen \<le> INT_MAX
        \<and> files w (db_name info) (take klen key) = None \<longrightarrow>
      snd (store_gdbm_fetch w (Some h) key klen n) = (None, 0)
      \<and> files (fst (store_gdbm_fetch w (Some h) key klen n)) = files w
      \<and> handles (fst (store_gdbm_fetch w (Some h) key klen n)) = handles w)"
proof -
  have a: "store_gdbm_fetch w store key klen n = (w, None, n)"
    if "store = None \<or> klen > INT_MAX"
    using that by (auto simp: store_gdbm_fetch_def split: option.splits)
  have b: "snd (store_gdbm_fetch w (Some h) key klen n) = (None, 0)
      \<and> files (fst (store_gdbm_fetch w (Some h) key klen n)) = files w
      \<and> handles (fst (store_gdbm_fetch w (Some h) key klen n)) = handles w"
    if i: "handle_info w h = Some info" and l: "klen \<le> INT_MAX"
      and m: "files w (db_name info) (take klen key) = None"
    using store_gdbm_fetch_open [OF i l, of key n] m by (simp add: logged_def)
  from a b show ?thesis by blast
qed

theorem store_gdbm_fetch_null_results_witness:
  "store_gdbm_fetch world_writable None [1] 1 7 = (world_writable, None, 7)
   \<and> handle_info (fst (store_gdbm_open world_writable (Some ''/tmp/cache.db''))) 0
       = Some \<lparr>db_name = ''/tmp/cache.db'', read_write = GDBM_WRCREAT\<rparr>
   \<and> (1::nat) \<le> INT_MAX
   \<and> files (fst (store_gdbm_open world_writable (Some ''/tmp/cache.db''))) ''/tmp/cache.db'' [1]
       = None
   \<and> snd (store_gdbm_fetch (fst (store_gdbm_open world_writable (Some ''/tmp/cache.db'')))
        (Some 0) [1] 1 7) = (None, 0)"
proof -
  let ?W = "fst (store_gdbm_open world_writable (Some ''/tmp/cache.db''))"
  let ?info = "\<lparr>db_name = ''/tmp/cache.db'', read_write = GDBM_WRCREAT\<rparr>"
  have h: "handle_info ?W 0 = Some ?info" "(1::nat) \<le> INT_MAX"
    "files ?W (db_name ?info) (take 1 [1]) = None"
    unfolding open_writable fst_conv
    by (simp_all add: handle_info_def INT_MAX_def world_writable_def)
  from store_gdbm_fetch_null_results [of None 1 world_writable "[1]" 7] 
  have 1: "store_gdbm_fetch world_writable None [1] 1 7 = (world_writable, None, 7)"
    by simp
  from store_gdbm_fetch_null_results [of "Some 0" 1 ?W "[1]" 7 0 ?info] h
  have 2: "snd (store_gdbm_fetch ?W (Some 0) [1] 1 7) = (None, 0)"
    by blast
  from 1 2 h show ?thesis by simp
qed

subsection \<open>Closing\<close>

text \<open>
  C5. \<open>store_gdbm_close\<close> on a variable that holds a handle calls \<open>gdbm_close\<close> on it once,
  after which the handle is no longer open, and sets the variable to \<open>NULL\<close>. With a
  \<open>NULL\<close> pointer or a variable that holds \<open>NULL\<close> it changes nothing. Closing again,
  with what the first close left, changes nothing more.
\<close>

theorem store_gdbm_close_clears_and_is_idempotent:
  "store_gdbm_close w None = (w, None)
   \<and> store_gdbm_close w (Some None) = (w, Some None)
   \<and> store_gdbm_close w (Some (Some h)) = (gdbm_close w h, Some None)
   \<and> handle_info (fst (store_gdbm_close w (Some (Some h)))) h = None
   \<and> calls (fst (store_gdbm_close w (Some (Some h)))) = calls w @ [Call_gdbm_close h]
   \<and> store_gdbm_close (fst (store_gdbm_close w ptr)) (snd (store_gdbm_close w ptr))
       = store_gdbm_close w ptr"
  by (auto simp: store_gdbm_close_def gdbm_close_def handle_info_def logged_def
      split: option.splits)

end
